theory Spec2Isabelle
  imports Main "HOL-Library.Sublist"
begin

section \<open>Route Guard: \<open>middleware\<close> of \<open>src/lib/security-headers.ts\<close>\<close>

text \<open>
  The middleware reads two things of the incoming request: the value of the cookie
  \<open>token\<close> and \<open>request.nextUrl.pathname\<close>. The request also carries the URL it
  was sent to, which only serves as the base against which the redirect target is
  resolved (\<open>new URL("/", request.url)\<close>), and any number of other cookies.
  A JavaScript string is modelled as a \<^typ>\<open>string\<close>; \<open>startsWith\<close> is
  \<^const>\<open>prefix\<close>, \<open>includes\<close> is \<^const>\<open>sublist\<close>.
\<close>

record nextRequest =
  url :: string
  pathname :: string
  requestCookies :: "string \<rightharpoonup> string"

text \<open>
  \<open>NextResponse.redirect(new URL(p, request.url))\<close> is \<open>redirect p\<close>: the path
  \<open>p\<close> on the origin of the request. \<open>NextResponse.next()\<close> is \<open>next\<close>.
\<close>

datatype nextResponse = redirect string | "next"

definition protectedRoutes :: "string list" where
  "protectedRoutes = [''/dashboard'', ''/project-dockets'', ''/datasets'']"

text \<open>
  \<open>request.cookies.get("token")?.value || null\<close>: no cookie gives \<open>null\<close>, and so
  does a cookie whose value is the empty string, the only falsy string.
\<close>

definition orNull :: "string option \<Rightarrow> string option" where
  "orNull v = (case v of None \<Rightarrow> None | Some s \<Rightarrow> if s = [] then None else Some s)"

definition middleware :: "nextRequest \<Rightarrow> nextResponse" where
  "middleware request =
     (let token = orNull (requestCookies request ''token'');
          pathname = pathname request
      in
        if (token = None \<or> token = Some ''undefined'')
           \<and> list_ex (\<lambda>route. prefix route pathname) protectedRoutes
        then redirect ''/''
        else if token \<noteq> None \<and> pathname = ''/''
        then redirect ''/organizations''
        else next)"

text \<open>
  The three token situations that the middleware tells apart: no token value at all
  (no cookie, or an empty one), the literal string \<open>undefined\<close>, and any other value.
\<close>

datatype tokenStatus = NoToken | UndefinedLiteral | UsableToken

definition tokenStatus :: "nextRequest \<Rightarrow> tokenStatus" where
  "tokenStatus request =
     (case requestCookies request ''token'' of
        None \<Rightarrow> NoToken
      | Some v \<Rightarrow> if v = [] then NoToken
                  else if v = ''undefined'' then UndefinedLiteral
                  else UsableToken)"

definition isProtected :: "string \<Rightarrow> bool" where
  "isProtected p = (\<exists>route \<in> set protectedRoutes. prefix route p)"

section \<open>HTTP values, errors and the browser state\<close>

text \<open>
  An axios request configuration, with the optional field \<open>_retry\<close> that the response
  interceptor of \<open>createApiClient\<close> declares on the type of \<open>originalRequest\<close>.
  The fields \<open>url\<close>, \<open>method\<close>, \<open>data\<close> and \<open>_retry\<close> of axios are \<open>target\<close>,
  \<open>verb\<close>, \<open>body\<close> and \<open>retry\<close> here.
\<close>

record requestConfig =
  target :: string
  verb :: string
  headers :: "string \<rightharpoonup> string"
  body :: string
  retry :: "bool option"

text \<open>
  A response: its status and its \<open>data\<close>, of which the code reads \<open>message\<close> and
  \<open>jwtToken\<close> (both taken to be strings when present).
\<close>

record responseData =
  message :: "string option"
  jwtToken :: "string option"
  content :: string

record axiosResponse =
  status :: int
  data :: "responseData option"

text \<open>
  A thrown or rejected value. An error made by axios has \<open>config\<close>, and \<open>response\<close>
  when the server answered; \<open>new Error(msg)\<close> has neither.
\<close>

record jsError =
  errorText :: string
  config :: "requestConfig option"
  response :: "axiosResponse option"

definition newError :: "string \<Rightarrow> jsError" where
  "newError msg = \<lparr>errorText = msg, config = None, response = None\<rparr>"

definition typeError :: jsError where
  "typeError = newError ''TypeError''"

text \<open>
  The state the clients act on: the cookie jar behind js-cookie's \<open>Cookies\<close>, the
  paths handed to \<open>Router.push\<close>, the requests handed to the transport and the
  calls of \<open>refreshToken\<close>, each list in the order of the calls.
\<close>

record world =
  Cookies :: "string \<rightharpoonup> string"
  routerPushes :: "string list"
  dispatched :: "requestConfig list"
  refreshCalls :: "(string \<times> string) list"

text \<open>
  The collaborators outside the repository. The transport either fulfils a request with
  a response or fails it, with the response when there is one. \<open>refreshToken\<close> is
  imported from \<open>../services/authservice\<close>: it resolves with a response or rejects
  with an error. Both may answer according to everything that happened before (the
  world at the time of the call); neither writes the cookie jar or navigates.
\<close>

datatype reply = Fulfilled axiosResponse | Failed string "axiosResponse option"

record env =
  adapter :: "world \<Rightarrow> requestConfig \<Rightarrow> reply"
  refreshToken :: "world \<Rightarrow> string \<Rightarrow> string \<Rightarrow> jsError + axiosResponse"

text \<open>\<open>e.response?.data?.message || ""\<close> and \<open>e.response?.status\<close>.\<close>

definition responseMessage :: "jsError \<Rightarrow> string" where
  "responseMessage e =
     (case response e of
        None \<Rightarrow> []
      | Some r \<Rightarrow> (case data r of
                    None \<Rightarrow> []
                  | Some d \<Rightarrow> (case message d of None \<Rightarrow> [] | Some m \<Rightarrow> m)))"

definition responseStatus :: "jsError \<Rightarrow> int option" where
  "responseStatus e = map_option status (response e)"

section \<open>The Gateway: \<open>createApiClient\<close>\<close>

text \<open>The request interceptor: attach the bearer token when the cookie has a value.\<close>

definition requestInterceptor :: "world \<Rightarrow> requestConfig \<Rightarrow> requestConfig" where
  "requestInterceptor w cfg =
     (case orNull (Cookies w ''token'') of
        None \<Rightarrow> cfg
      | Some token \<Rightarrow> cfg\<lparr>headers := (headers cfg)(''Authorization'' \<mapsto> ''Bearer '' @ token)\<rparr>)"

text \<open>
  The \<open>try\<close> block of the response interceptor. \<open>Inl\<close> is a value thrown inside
  the block, with the world at the throw; \<open>Inr\<close> is the promise the block returns,
  here what the call \<open>apiClient(originalRequest)\<close> (the parameter \<open>resend\<close>)
  yields. The block returns that promise without awaiting it, so a rejection of the
  resent request is not caught by the \<open>catch\<close>.
\<close>

definition tryBlock ::
  "(world \<Rightarrow> requestConfig \<Rightarrow> 'p) \<Rightarrow> env \<Rightarrow> world \<Rightarrow> requestConfig option
     \<Rightarrow> (jsError \<times> world) + 'p" where
  "tryBlock resend env w originalRequest =
     (case (orNull (Cookies w ''refresh_token''), orNull (Cookies w ''user_id'')) of
        (Some oldToken, Some userId) \<Rightarrow>
          (let w1 = w\<lparr>refreshCalls := refreshCalls w @ [(oldToken, userId)]\<rparr> in
           case refreshToken env w oldToken userId of
             Inl rejected \<Rightarrow> Inl (rejected, w1)
           | Inr refreshResponse \<Rightarrow>
               (case data refreshResponse of
                  None \<Rightarrow> Inl (typeError, w1)
                | Some d \<Rightarrow>
                    (case orNull (jwtToken d) of
                       None \<Rightarrow> Inl (newError ''Failed to retrieve new token'', w1)
                     | Some newAccessToken \<Rightarrow>
                         (let w2 = w1\<lparr>Cookies := (Cookies w1)(''token'' \<mapsto> newAccessToken)\<rparr> in
                          case originalRequest of
                            None \<Rightarrow> Inl (typeError, w2)
                          | Some req \<Rightarrow>
                              Inr (resend w2
                                (req\<lparr>headers := (headers req)
                                   (''Authorization'' \<mapsto> ''Bearer '' @ newAccessToken)\<rparr>))))))
      | _ \<Rightarrow> Inl (newError ''Missing token or userId for refresh'', w))"

text \<open>The \<open>catch\<close> block: purge and navigate on an invalid refresh token, then reject.\<close>

definition catchBlock :: "world \<Rightarrow> jsError \<Rightarrow> (jsError + axiosResponse) \<times> world" where
  "catchBlock w refreshError =
     (if responseStatus refreshError = Some 400
         \<or> sublist ''Refresh token is invalid'' (responseMessage refreshError)
      then (Inl refreshError,
            w\<lparr>Cookies := (Cookies w)(''token'' := None, ''refresh_token'' := None,
                                      ''user_id'' := None),
              routerPushes := routerPushes w @ [''/login'']\<rparr>)
      else (Inl refreshError, w))"

text \<open>The rejection handler of the response interceptor.\<close>

definition onRejected ::
  "(world \<Rightarrow> requestConfig \<Rightarrow> ((jsError + axiosResponse) \<times> world) option) \<Rightarrow> env \<Rightarrow> world
     \<Rightarrow> jsError \<Rightarrow> ((jsError + axiosResponse) \<times> world) option" where
  "onRejected resend env w error =
     (if sublist ''Unauthorized or invalid token'' (responseMessage error)
      then (case tryBlock resend env w (config error) of
              Inl (refreshError, w') \<Rightarrow> Some (catchBlock w' refreshError)
            | Inr promise \<Rightarrow> promise)
      else Some (Inl error, w))"

text \<open>
  The client itself: the request interceptor, the transport, then the response
  interceptor, whose fulfilment handler is the identity. The handler can call the client
  again, and nothing in the code bounds how often; the first argument is the number of
  requests the model may still dispatch, and \<open>None\<close> says that it did not suffice.
\<close>

primrec apiClient ::
  "nat \<Rightarrow> env \<Rightarrow> world \<Rightarrow> requestConfig \<Rightarrow> ((jsError + axiosResponse) \<times> world) option" where
  "apiClient 0 env w cfg = None"
| "apiClient (Suc fuel) env w cfg =
     (let sentConfig = requestInterceptor w cfg;
          w' = w\<lparr>dispatched := dispatched w @ [sentConfig]\<rparr>
      in case adapter env w sentConfig of
           Fulfilled r \<Rightarrow> Some (Inr r, w')
         | Failed why r \<Rightarrow>
             onRejected (apiClient fuel env) env w'
               \<lparr>errorText = why, config = Some sentConfig, response = r\<rparr>)"

section \<open>The identity client: \<open>src/lib/apiClient.ts\<close>\<close>

text \<open>
  Its request interceptor is the same function as the Gateway's. Its rejection handler
  looks at the status only, and the client never calls itself.
\<close>

definition identityOnRejected :: "world \<Rightarrow> jsError \<Rightarrow> (jsError + axiosResponse) \<times> world" where
  "identityOnRejected w error =
     (if responseStatus error = Some 401
      then (Inl error, w\<lparr>Cookies := (Cookies w)(''token'' := None),
                         routerPushes := routerPushes w @ [''/login'']\<rparr>)
      else (Inl error, w))"

definition identityApiClient ::
  "env \<Rightarrow> world \<Rightarrow> requestConfig \<Rightarrow> (jsError + axiosResponse) \<times> world" where
  "identityApiClient env w cfg =
     (let sentConfig = requestInterceptor w cfg;
          w' = w\<lparr>dispatched := dispatched w @ [sentConfig]\<rparr>
      in case adapter env w sentConfig of
           Fulfilled r \<Rightarrow> (Inr r, w')
         | Failed why r \<Rightarrow>
             identityOnRejected w' \<lparr>errorText = why, config = Some sentConfig, response = r\<rparr>)"

section \<open>Concrete servers, states and requests\<close>

text \<open>
  The inputs at which the theorems below are evaluated: a backend whose answers are
  scripted by the number of requests it has received (and that answers 200 once the
  script is used up), with a refresh endpoint that always gives the same result.
\<close>

definition unauthorizedResponse :: axiosResponse where
  "unauthorizedResponse =
     \<lparr>status = 401,
      data = Some \<lparr>message = Some ''Unauthorized or invalid token'', jwtToken = None,
                   content = []\<rparr>\<rparr>"

definition okResponse :: axiosResponse where
  "okResponse =
     \<lparr>status = 200, data = Some \<lparr>message = None, jwtToken = None, content = ''ok''\<rparr>\<rparr>"

definition tokenResponse :: "string option \<Rightarrow> axiosResponse" where
  "tokenResponse t =
     \<lparr>status = 200, data = Some \<lparr>message = None, jwtToken = t, content = []\<rparr>\<rparr>"

definition noDataResponse :: axiosResponse where
  "noDataResponse = \<lparr>status = 204, data = None\<rparr>"

definition badRequest :: jsError where
  "badRequest =
     \<lparr>errorText = ''Request failed with status code 400'', config = None,
      response = Some \<lparr>status = 400,
                        data = Some \<lparr>message = Some ''Refresh token is invalid'',
                                     jwtToken = None, content = []\<rparr>\<rparr>\<rparr>"

definition networkError :: jsError where
  "networkError = \<lparr>errorText = ''Network Error'', config = None, response = None\<rparr>"

definition unauthorized :: reply where
  "unauthorized = Failed ''Request failed with status code 401'' (Some unauthorizedResponse)"

definition scripted :: "reply list \<Rightarrow> jsError + axiosResponse \<Rightarrow> env" where
  "scripted replies refreshResult =
     \<lparr>adapter = (\<lambda>w c. case drop (length (dispatched w)) replies of
                          [] \<Rightarrow> Fulfilled okResponse
                        | r # _ \<Rightarrow> r),
      refreshToken = (\<lambda>w oldToken userId. refreshResult)\<rparr>"

text \<open>
  A backend that answers the first \<open>k\<close> requests with the auth-failure marker while
  the refresh endpoint keeps handing out a token.
\<close>

definition stubborn :: "nat \<Rightarrow> env" where
  "stubborn k = scripted (replicate k unauthorized) (Inr (tokenResponse (Some ''t1'')))"

definition loggedIn :: world where
  "loggedIn =
     \<lparr>Cookies = [''token'' \<mapsto> ''t0'', ''refresh_token'' \<mapsto> ''r0'', ''user_id'' \<mapsto> ''u0''],
      routerPushes = [], dispatched = [], refreshCalls = []\<rparr>"

definition noUserId :: world where
  "noUserId =
     \<lparr>Cookies = [''token'' \<mapsto> ''t0'', ''refresh_token'' \<mapsto> ''r0''],
      routerPushes = [], dispatched = [], refreshCalls = []\<rparr>"

definition getItems :: requestConfig where
  "getItems =
     \<lparr>target = ''/items'', verb = ''get'', headers = Map.empty, body = [], retry = None\<rparr>"

section \<open>Properties of the Route Guard\<close>

lemma isProtected_list_ex:
  "list_ex (\<lambda>route. prefix route p) protectedRoutes = isProtected p"
  by (simp add: isProtected_def list_ex_iff)

lemma root_not_protected: "\<not> isProtected ''/''"
  by (simp add: isProtected_def protectedRoutes_def)

lemma middleware_cases:
  "middleware request =
     (if isProtected (pathname request)
         \<and> (tokenStatus request = NoToken \<or> tokenStatus request = UndefinedLiteral)
      then redirect ''/''
      else if tokenStatus request \<noteq> NoToken \<and> pathname request = ''/''
      then redirect ''/organizations''
      else next)"
  by (cases "requestCookies request ''token''")
     (simp_all add: middleware_def orNull_def tokenStatus_def isProtected_list_ex Let_def)

text \<open>
  Claim C8. A request on a protected prefix whose token cookie is absent (no cookie, or
  one with no value) or is the literal string \<open>undefined\<close> is redirected to \<open>/\<close>; a
  request for exactly \<open>/\<close> that carries a token is redirected to \<open>/organizations\<close>;
  every other request passes through.
\<close>

theorem middleware_route_guard:
  fixes request :: nextRequest
  defines "tok \<equiv> requestCookies request ''token''"
  defines "absent \<equiv> (tok = None \<or> tok = Some '''')"
  defines "guarded \<equiv> (\<exists>route \<in> set protectedRoutes. prefix route (pathname request))"
  shows "(guarded \<and> (absent \<or> tok = Some ''undefined'')
            \<longrightarrow> middleware request = redirect ''/'')
       \<and> (\<not> absent \<and> pathname request = ''/''
            \<longrightarrow> middleware request = redirect ''/organizations'')
       \<and> (\<not> (guarded \<and> (absent \<or> tok = Some ''undefined''))
            \<and> \<not> (\<not> absent \<and> pathname request = ''/'')
            \<longrightarrow> middleware request = next)"
proof -
  have st: "tokenStatus request = NoToken \<longleftrightarrow> absent"
           "tokenStatus request = UndefinedLiteral \<longleftrightarrow> tok = Some ''undefined''"
    unfolding absent_def tok_def
    by (cases "requestCookies request ''token''"; simp add: tokenStatus_def)+
  have g: "isProtected (pathname request) = guarded"
    by (simp add: isProtected_def guarded_def)
  have r: "pathname request = ''/'' \<Longrightarrow> \<not> guarded"
    using root_not_protected g by metis
  show ?thesis
    unfolding middleware_cases st g using r by auto
qed

theorem middleware_route_guard_witness:
  "middleware \<lparr>url = ''https://app.example/dashboard/x'', pathname = ''/dashboard/x'',
               requestCookies = Map.empty\<rparr> = redirect ''/''
   \<and> middleware \<lparr>url = ''https://app.example/datasets'', pathname = ''/datasets'',
               requestCookies = [''token'' \<mapsto> ''undefined'']\<rparr> = redirect ''/''
   \<and> middleware \<lparr>url = ''https://app.example/'', pathname = ''/'',
               requestCookies = [''token'' \<mapsto> ''abc'']\<rparr> = redirect ''/organizations''
   \<and> middleware \<lparr>url = ''https://app.example/public'', pathname = ''/public'',
               requestCookies = Map.empty\<rparr> = next"
proof -
  let ?a = "\<lparr>url = ''https://app.example/dashboard/x'', pathname = ''/dashboard/x'',
             requestCookies = Map.empty\<rparr>"
  let ?b = "\<lparr>url = ''https://app.example/datasets'', pathname = ''/datasets'',
             requestCookies = [''token'' \<mapsto> ''undefined'']\<rparr>"
  let ?c = "\<lparr>url = ''https://app.example/'', pathname = ''/'',
             requestCookies = [''token'' \<mapsto> ''abc'']\<rparr>"
  let ?d = "\<lparr>url = ''https://app.example/public'', pathname = ''/public'',
             requestCookies = Map.empty\<rparr>"
  have "middleware ?a = redirect ''/''"
    using middleware_route_guard [of ?a] by (simp add: protectedRoutes_def)
  moreover have "middleware ?b = redirect ''/''"
    using middleware_route_guard [of ?b] by (simp add: protectedRoutes_def)
  moreover have "middleware ?c = redirect ''/organizations''"
    using middleware_route_guard [of ?c] by simp
  moreover have "middleware ?d = next"
    using middleware_route_guard [of ?d] by (simp add: protectedRoutes_def)
  ultimately show ?thesis by simp
qed

text \<open>
  Claim C9, as stated, fails: two requests for \<open>/dashboard\<close> that both carry a token
  cookie get different decisions when one cookie holds the literal \<open>undefined\<close>.
\<close>

theorem middleware_presence_counterexample:
  "pathname \<lparr>url = ''https://app.example/dashboard'', pathname = ''/dashboard'',
             requestCookies = [''token'' \<mapsto> ''undefined'']\<rparr>
     = pathname \<lparr>url = ''https://app.example/dashboard'', pathname = ''/dashboard'',
                 requestCookies = [''token'' \<mapsto> ''abc'']\<rparr>
   \<and> requestCookies \<lparr>url = ''https://app.example/dashboard'', pathname = ''/dashboard'',
             requestCookies = [''token'' \<mapsto> ''undefined'']\<rparr> ''token'' \<noteq> None
   \<and> requestCookies \<lparr>url = ''https://app.example/dashboard'', pathname = ''/dashboard'',
             requestCookies = [''token'' \<mapsto> ''abc'']\<rparr> ''token'' \<noteq> None
   \<and> middleware \<lparr>url = ''https://app.example/dashboard'', pathname = ''/dashboard'',
             requestCookies = [''token'' \<mapsto> ''undefined'']\<rparr> = redirect ''/''
   \<and> middleware \<lparr>url = ''https://app.example/dashboard'', pathname = ''/dashboard'',
             requestCookies = [''token'' \<mapsto> ''abc'']\<rparr> = next"
  by (simp add: middleware_def orNull_def protectedRoutes_def)

text \<open>
  Claim C9, amended. The decision is a function of the path and of the token status,
  where the status tells apart no token, the literal \<open>undefined\<close> and any other value:
  two requests that agree on both get the same decision, whatever their URLs, their
  other cookies and the token values themselves.
\<close>

theorem middleware_deterministic:
  "pathname r1 = pathname r2 \<Longrightarrow> tokenStatus r1 = tokenStatus r2
     \<Longrightarrow> middleware r1 = middleware r2"
  by (simp only: middleware_cases)

theorem middleware_deterministic_witness:
  "pathname \<lparr>url = ''https://a.example/datasets/7'', pathname = ''/datasets/7'',
             requestCookies = [''token'' \<mapsto> ''abc'', ''theme'' \<mapsto> ''dark'']\<rparr>
     = pathname \<lparr>url = ''https://b.example/datasets/7'', pathname = ''/datasets/7'',
                 requestCookies = [''token'' \<mapsto> ''xyz'']\<rparr>
   \<and> tokenStatus \<lparr>url = ''https://a.example/datasets/7'', pathname = ''/datasets/7'',
             requestCookies = [''token'' \<mapsto> ''abc'', ''theme'' \<mapsto> ''dark'']\<rparr>
     = tokenStatus \<lparr>url = ''https://b.example/datasets/7'', pathname = ''/datasets/7'',
                 requestCookies = [''token'' \<mapsto> ''xyz'']\<rparr>
   \<and> middleware \<lparr>url = ''https://a.example/datasets/7'', pathname = ''/datasets/7'',
             requestCookies = [''token'' \<mapsto> ''abc'', ''theme'' \<mapsto> ''dark'']\<rparr>
     = middleware \<lparr>url = ''https://b.example/datasets/7'', pathname = ''/datasets/7'',
                 requestCookies = [''token'' \<mapsto> ''xyz'']\<rparr>"
proof -
  let ?a = "\<lparr>url = ''https://a.example/datasets/7'', pathname = ''/datasets/7'',
             requestCookies = [''token'' \<mapsto> ''abc'', ''theme'' \<mapsto> ''dark'']\<rparr>"
  let ?b = "\<lparr>url = ''https://b.example/datasets/7'', pathname = ''/datasets/7'',
             requestCookies = [''token'' \<mapsto> ''xyz'']\<rparr>"
  have p: "pathname ?a = pathname ?b" by simp
  have s: "tokenStatus ?a = tokenStatus ?b" by (simp add: tokenStatus_def)
  from p s middleware_deterministic [OF p s] show ?thesis by simp
qed

section \<open>Properties of the Gateway\<close>

lemma responseMessage_simps:
  "responseMessage \<lparr>errorText = t, config = c, response = None\<rparr> = []"
  "responseMessage \<lparr>errorText = t, config = c, response = Some r\<rparr> =
     (case data r of None \<Rightarrow> [] | Some d \<Rightarrow> (case message d of None \<Rightarrow> [] | Some m \<Rightarrow> m))"
  by (simp_all add: responseMessage_def)

lemma tryBlock_throw_frame:
  "tryBlock k env w (Some c) = Inl (e, w') \<Longrightarrow>
     Cookies w' = Cookies w \<and> routerPushes w' = routerPushes w \<and> dispatched w' = dispatched w"
  by (auto simp: tryBlock_def Let_def split: option.splits sum.splits prod.splits)

lemma apiClient_fulfilled:
  "adapter env w (requestInterceptor w cfg) = Fulfilled r \<Longrightarrow>
     apiClient (Suc fuel) env w cfg
       = Some (Inr r, w\<lparr>dispatched := dispatched w @ [requestInterceptor w cfg]\<rparr>)"
  by (simp add: Let_def)

lemma apiClient_unauthorized:
  assumes "adapter env w (requestInterceptor w cfg) = Failed why (Some r)"
    and "data r = Some d" and "message d = Some m"
    and "sublist ''Unauthorized or invalid token'' m"
  shows "apiClient (Suc fuel) env w cfg =
     (case tryBlock (apiClient fuel env) env
             (w\<lparr>dispatched := dispatched w @ [requestInterceptor w cfg]\<rparr>)
             (Some (requestInterceptor w cfg)) of
        Inl (refreshError, w') \<Rightarrow> Some (catchBlock w' refreshError)
      | Inr promise \<Rightarrow> promise)"
  using assms by (simp add: Let_def onRejected_def responseMessage_simps)

text \<open>The definitions unfolded to run the clients on the concrete inputs.\<close>

lemmas eval_defs = scripted_def unauthorized_def loggedIn_def noUserId_def getItems_def
  tokenResponse_def unauthorizedResponse_def okResponse_def badRequest_def networkError_def
  onRejected_def tryBlock_def catchBlock_def requestInterceptor_def orNull_def
  responseMessage_def responseStatus_def newError_def typeError_def Let_def

text \<open>The first answer of the scripted backend, and what it carries.\<close>

lemma unauthorized_first:
  "adapter (scripted [unauthorized] rr) loggedIn (requestInterceptor loggedIn getItems)
     = Failed ''Request failed with status code 401'' (Some unauthorizedResponse)"
  "adapter (scripted [unauthorized] rr) noUserId (requestInterceptor noUserId getItems)
     = Failed ''Request failed with status code 401'' (Some unauthorizedResponse)"
  by (simp_all add: scripted_def loggedIn_def noUserId_def unauthorized_def)

lemma unauthorized_marker:
  "data unauthorizedResponse
     = Some \<lparr>message = Some ''Unauthorized or invalid token'', jwtToken = None, content = []\<rparr>"
  "message \<lparr>message = Some ''Unauthorized or invalid token'', jwtToken = None, content = []\<rparr>
     = Some ''Unauthorized or invalid token''"
  "sublist ''Unauthorized or invalid token'' ''Unauthorized or invalid token''"
  by (simp_all add: unauthorizedResponse_def)

text \<open>
  Claim C6. When the transport fulfils the request, the Gateway resolves with that very
  response, whatever its body says, and the cookie jar is what it was: the three
  credentials are untouched, nothing is navigated and no refresh is called.
\<close>

theorem apiClient_success_unchanged:
  assumes "adapter env w (requestInterceptor w cfg) = Fulfilled r"
  shows "\<exists>w'. apiClient (Suc fuel) env w cfg = Some (Inr r, w')
            \<and> Cookies w' = Cookies w \<and> routerPushes w' = routerPushes w
            \<and> refreshCalls w' = refreshCalls w"
  using assms by (simp add: apiClient_fulfilled)

theorem apiClient_success_unchanged_witness:
  "adapter (scripted [] (Inl networkError)) loggedIn (requestInterceptor loggedIn getItems)
     = Fulfilled okResponse
   \<and> (\<exists>w'. apiClient (Suc 0) (scripted [] (Inl networkError)) loggedIn getItems
               = Some (Inr okResponse, w')
           \<and> Cookies w' = Cookies loggedIn \<and> routerPushes w' = routerPushes loggedIn
           \<and> refreshCalls w' = refreshCalls loggedIn)"
proof -
  have h: "adapter (scripted [] (Inl networkError)) loggedIn
             (requestInterceptor loggedIn getItems) = Fulfilled okResponse"
    by (simp add: scripted_def loggedIn_def)
  from h apiClient_success_unchanged [OF h, where fuel = 0] show ?thesis by blast
qed

text \<open>
  Claim C2. The request fails with the auth-failure marker, the credentials for a
  refresh are there, and the refresh endpoint rejects with status 400 or with a message
  containing \<open>Refresh token is invalid\<close>. Then the Gateway rejects with that refresh
  error, the three credential cookies are gone, and \<open>/login\<close> has been pushed once.
\<close>

theorem apiClient_invalid_refresh_purges:
  assumes "adapter env w (requestInterceptor w cfg) = Failed why (Some r)"
    and "data r = Some d" and "message d = Some m"
    and "sublist ''Unauthorized or invalid token'' m"
    and "Cookies w ''refresh_token'' = Some oldToken" and "oldToken \<noteq> []"
    and "Cookies w ''user_id'' = Some userId" and "userId \<noteq> []"
    and "refreshToken env (w\<lparr>dispatched := dispatched w @ [requestInterceptor w cfg]\<rparr>)
           oldToken userId = Inl refreshError"
    and "responseStatus refreshError = Some 400
           \<or> sublist ''Refresh token is invalid'' (responseMessage refreshError)"
  shows "\<exists>w'. apiClient (Suc fuel) env w cfg = Some (Inl refreshError, w')
            \<and> Cookies w' ''token'' = None \<and> Cookies w' ''refresh_token'' = None
            \<and> Cookies w' ''user_id'' = None
            \<and> routerPushes w' = routerPushes w @ [''/login'']
            \<and> refreshCalls w' = refreshCalls w @ [(oldToken, userId)]"
proof -
  let ?w1 = "w\<lparr>dispatched := dispatched w @ [requestInterceptor w cfg]\<rparr>"
  have t: "tryBlock (apiClient fuel env) env ?w1 (Some (requestInterceptor w cfg))
             = Inl (refreshError, ?w1\<lparr>refreshCalls := refreshCalls w @ [(oldToken, userId)]\<rparr>)"
    using assms(5-9) by (simp add: tryBlock_def orNull_def)
  show ?thesis
    unfolding apiClient_unauthorized [OF assms(1-4)] t
    using assms(10) by (simp add: catchBlock_def)
qed

theorem apiClient_invalid_refresh_purges_witness:
  "refreshToken (scripted [unauthorized] (Inl badRequest))
      (loggedIn\<lparr>dispatched := dispatched loggedIn @ [requestInterceptor loggedIn getItems]\<rparr>)
      ''r0'' ''u0'' = Inl badRequest
   \<and> responseStatus badRequest = Some 400
   \<and> (\<exists>w'. apiClient (Suc 0) (scripted [unauthorized] (Inl badRequest)) loggedIn getItems
               = Some (Inl badRequest, w')
           \<and> Cookies w' ''token'' = None \<and> Cookies w' ''refresh_token'' = None
           \<and> Cookies w' ''user_id'' = None
           \<and> routerPushes w' = routerPushes loggedIn @ [''/login'']
           \<and> refreshCalls w' = refreshCalls loggedIn @ [(''r0'', ''u0'')])"
proof -
  let ?env = "scripted [unauthorized] (Inl badRequest)"
  have rej: "refreshToken ?env
      (loggedIn\<lparr>dispatched := dispatched loggedIn @ [requestInterceptor loggedIn getItems]\<rparr>)
      ''r0'' ''u0'' = Inl badRequest"
    by (simp add: scripted_def)
  have st: "responseStatus badRequest = Some 400"
    by (simp add: badRequest_def responseStatus_def)
  have inv: "responseStatus badRequest = Some 400
      \<or> sublist ''Refresh token is invalid'' (responseMessage badRequest)"
    using st by simp
  have c: "Cookies loggedIn ''refresh_token'' = Some ''r0''" "''r0'' \<noteq> []"
          "Cookies loggedIn ''user_id'' = Some ''u0''" "''u0'' \<noteq> []"
    by (simp_all add: loggedIn_def)
  from apiClient_invalid_refresh_purges
         [OF unauthorized_first(1) unauthorized_marker c rej inv, where fuel = 0]
  show ?thesis using rej st by blast
qed

text \<open>
  Claim C3, as stated, fails: with no \<open>user_id\<close> cookie the Gateway rejects, but the
  other two credentials are still in the jar afterwards and nothing was navigated.
\<close>

theorem apiClient_missing_credentials_counterexample:
  "Cookies noUserId ''user_id'' = None
   \<and> apiClient (Suc 0) (scripted [unauthorized] (Inr (tokenResponse (Some ''t1'')))) noUserId getItems
       = Some (Inl (newError ''Missing token or userId for refresh''),
               noUserId\<lparr>dispatched := [requestInterceptor noUserId getItems]\<rparr>)
   \<and> Cookies (noUserId\<lparr>dispatched := [requestInterceptor noUserId getItems]\<rparr>) ''token''
       = Some ''t0''
   \<and> Cookies (noUserId\<lparr>dispatched := [requestInterceptor noUserId getItems]\<rparr>) ''refresh_token''
       = Some ''r0''
   \<and> routerPushes (noUserId\<lparr>dispatched := [requestInterceptor noUserId getItems]\<rparr>) = []"
  by (simp add: eval_defs)

text \<open>
  Claim C3, amended. When the request fails with the auth-failure marker and the cookie
  \<open>refresh_token\<close> or \<open>user_id\<close> has no value, the refresh endpoint is not called
  and the Gateway rejects with the error \<open>Missing token or userId for refresh\<close>; that
  error has no response, so the \<open>catch\<close> block neither removes a cookie nor navigates.
\<close>

theorem apiClient_missing_credentials:
  assumes "adapter env w (requestInterceptor w cfg) = Failed why (Some r)"
    and "data r = Some d" and "message d = Some m"
    and "sublist ''Unauthorized or invalid token'' m"
    and "orNull (Cookies w ''refresh_token'') = None \<or> orNull (Cookies w ''user_id'') = None"
  shows "\<exists>w'. apiClient (Suc fuel) env w cfg
              = Some (Inl (newError ''Missing token or userId for refresh''), w')
            \<and> refreshCalls w' = refreshCalls w
            \<and> Cookies w' = Cookies w \<and> routerPushes w' = routerPushes w"
proof -
  let ?w1 = "w\<lparr>dispatched := dispatched w @ [requestInterceptor w cfg]\<rparr>"
  have t: "tryBlock (apiClient fuel env) env ?w1 (Some (requestInterceptor w cfg))
             = Inl (newError ''Missing token or userId for refresh'', ?w1)"
    using assms(5) by (auto simp: tryBlock_def split: option.splits)
  have n: "responseStatus (newError s) = None" "responseMessage (newError s) = []" for s
    by (simp_all add: newError_def responseStatus_def responseMessage_def)
  show ?thesis
    unfolding apiClient_unauthorized [OF assms(1-4)] t
    by (simp add: catchBlock_def n)
qed

theorem apiClient_missing_credentials_witness:
  "orNull (Cookies noUserId ''user_id'') = None
   \<and> (\<exists>w'. apiClient (Suc 0) (scripted [unauthorized] (Inl networkError)) noUserId getItems
               = Some (Inl (newError ''Missing token or userId for refresh''), w')
           \<and> refreshCalls w' = refreshCalls noUserId
           \<and> Cookies w' = Cookies noUserId \<and> routerPushes w' = routerPushes noUserId)"
proof -
  have m: "orNull (Cookies noUserId ''user_id'') = None"
    by (simp add: noUserId_def orNull_def)
  then have d: "orNull (Cookies noUserId ''refresh_token'') = None
      \<or> orNull (Cookies noUserId ''user_id'') = None"
    by simp
  from apiClient_missing_credentials
         [OF unauthorized_first(2) unauthorized_marker d, where fuel = 0]
  show ?thesis using m by blast
qed

text \<open>
  Claim C4, as stated, fails: after a refresh response without \<open>jwtToken\<close> the
  Gateway rejects, but the three credentials are still in the jar and nothing was
  navigated.
\<close>

theorem apiClient_refresh_without_token_counterexample:
  "refreshToken (scripted [unauthorized] (Inr (tokenResponse None)))
      (loggedIn\<lparr>dispatched := [requestInterceptor loggedIn getItems]\<rparr>) ''r0'' ''u0''
     = Inr (tokenResponse None)
   \<and> apiClient (Suc 0) (scripted [unauthorized] (Inr (tokenResponse None))) loggedIn getItems
       = Some (Inl (newError ''Failed to retrieve new token''),
               loggedIn\<lparr>dispatched := [requestInterceptor loggedIn getItems],
                         refreshCalls := [(''r0'', ''u0'')]\<rparr>)
   \<and> Cookies (loggedIn\<lparr>dispatched := [requestInterceptor loggedIn getItems],
                         refreshCalls := [(''r0'', ''u0'')]\<rparr>) ''token'' = Some ''t0''
   \<and> Cookies (loggedIn\<lparr>dispatched := [requestInterceptor loggedIn getItems],
                         refreshCalls := [(''r0'', ''u0'')]\<rparr>) ''refresh_token'' = Some ''r0''
   \<and> Cookies (loggedIn\<lparr>dispatched := [requestInterceptor loggedIn getItems],
                         refreshCalls := [(''r0'', ''u0'')]\<rparr>) ''user_id'' = Some ''u0''
   \<and> routerPushes (loggedIn\<lparr>dispatched := [requestInterceptor loggedIn getItems],
                         refreshCalls := [(''r0'', ''u0'')]\<rparr>) = []"
  by (simp add: eval_defs)

text \<open>
  Claim C4, amended. When the refresh call resolves with a response from which
  \<open>refreshResponse.data.jwtToken\<close> yields no token (\<open>jwtToken\<close> absent or empty,
  or no \<open>data\<close> at all), the Gateway rejects with an error thrown in the \<open>try\<close>
  block: \<open>Failed to retrieve new token\<close>, or a \<open>TypeError\<close> when the response
  has no \<open>data\<close>. That error has no response, so the cookie jar is left as it was and
  nothing is navigated.
\<close>

theorem apiClient_refresh_without_token:
  assumes "adapter env w (requestInterceptor w cfg) = Failed why (Some r)"
    and "data r = Some d" and "message d = Some m"
    and "sublist ''Unauthorized or invalid token'' m"
    and "Cookies w ''refresh_token'' = Some oldToken" and "oldToken \<noteq> []"
    and "Cookies w ''user_id'' = Some userId" and "userId \<noteq> []"
    and "refreshToken env (w\<lparr>dispatched := dispatched w @ [requestInterceptor w cfg]\<rparr>)
           oldToken userId = Inr refreshResponse"
    and "(case data refreshResponse of None \<Rightarrow> None | Some rd \<Rightarrow> orNull (jwtToken rd)) = None"
  shows "\<exists>w'. apiClient (Suc fuel) env w cfg
              = Some (Inl (case data refreshResponse of
                             None \<Rightarrow> typeError
                           | Some rd \<Rightarrow> newError ''Failed to retrieve new token''), w')
            \<and> Cookies w' = Cookies w \<and> routerPushes w' = routerPushes w
            \<and> refreshCalls w' = refreshCalls w @ [(oldToken, userId)]"
proof -
  let ?w1 = "w\<lparr>dispatched := dispatched w @ [requestInterceptor w cfg]\<rparr>"
  let ?e = "case data refreshResponse of
              None \<Rightarrow> typeError
            | Some rd \<Rightarrow> newError ''Failed to retrieve new token''"
  have t: "tryBlock (apiClient fuel env) env ?w1 (Some (requestInterceptor w cfg))
             = Inl (?e, ?w1\<lparr>refreshCalls := refreshCalls w @ [(oldToken, userId)]\<rparr>)"
  proof (cases "data refreshResponse")
    case None
    with assms(5-9) show ?thesis by (simp add: tryBlock_def orNull_def)
  next
    case (Some rd)
    with assms(5-10) show ?thesis by (simp add: tryBlock_def orNull_def)
  qed
  have n: "responseStatus ?e = None" "responseMessage ?e = []"
    by (simp_all add: typeError_def newError_def responseStatus_def responseMessage_def
             split: option.splits)
  show ?thesis
    unfolding apiClient_unauthorized [OF assms(1-4)] t
    by (simp add: catchBlock_def n)
qed

theorem apiClient_refresh_without_token_witness:
  "(\<exists>w'. apiClient (Suc 0) (scripted [unauthorized] (Inr (tokenResponse None)))
               loggedIn getItems
               = Some (Inl (newError ''Failed to retrieve new token''), w')
           \<and> Cookies w' = Cookies loggedIn \<and> routerPushes w' = routerPushes loggedIn
           \<and> refreshCalls w' = refreshCalls loggedIn @ [(''r0'', ''u0'')])
   \<and> (\<exists>w'. apiClient (Suc 0) (scripted [unauthorized] (Inr (tokenResponse (Some []))))
               loggedIn getItems
               = Some (Inl (newError ''Failed to retrieve new token''), w')
           \<and> Cookies w' = Cookies loggedIn \<and> routerPushes w' = routerPushes loggedIn
           \<and> refreshCalls w' = refreshCalls loggedIn @ [(''r0'', ''u0'')])
   \<and> (\<exists>w'. apiClient (Suc 0) (scripted [unauthorized] (Inr noDataResponse))
               loggedIn getItems
               = Some (Inl typeError, w')
           \<and> Cookies w' = Cookies loggedIn \<and> routerPushes w' = routerPushes loggedIn
           \<and> refreshCalls w' = refreshCalls loggedIn @ [(''r0'', ''u0'')])"
proof -
  have res: "refreshToken (scripted [unauthorized] (Inr rr))
      (loggedIn\<lparr>dispatched := dispatched loggedIn @ [requestInterceptor loggedIn getItems]\<rparr>)
      ''r0'' ''u0'' = Inr rr" for rr
    by (simp add: scripted_def)
  have c: "Cookies loggedIn ''refresh_token'' = Some ''r0''" "''r0'' \<noteq> []"
          "Cookies loggedIn ''user_id'' = Some ''u0''" "''u0'' \<noteq> []"
    by (simp_all add: loggedIn_def)
  have a: "(case data (tokenResponse None) of None \<Rightarrow> None
            | Some rd \<Rightarrow> orNull (jwtToken rd)) = None"
    by (simp add: tokenResponse_def orNull_def)
  have b: "(case data (tokenResponse (Some [])) of None \<Rightarrow> None
            | Some rd \<Rightarrow> orNull (jwtToken rd)) = None"
    by (simp add: tokenResponse_def orNull_def)
  have n: "(case data noDataResponse of None \<Rightarrow> None
            | Some rd \<Rightarrow> orNull (jwtToken rd)) = None"
    by (simp add: noDataResponse_def)
  have ea: "(case data (tokenResponse t) of None \<Rightarrow> typeError
            | Some rd \<Rightarrow> newError ''Failed to retrieve new token'')
             = newError ''Failed to retrieve new token''" for t
    by (simp add: tokenResponse_def)
  have en: "(case data noDataResponse of None \<Rightarrow> typeError
            | Some rd \<Rightarrow> newError ''Failed to retrieve new token'') = typeError"
    by (simp add: noDataResponse_def)
  note apiClient_refresh_without_token
         [OF unauthorized_first(1) unauthorized_marker c res a, where fuel = 0, unfolded ea]
       apiClient_refresh_without_token
         [OF unauthorized_first(1) unauthorized_marker c res b, where fuel = 0, unfolded ea]
       apiClient_refresh_without_token
         [OF unauthorized_first(1) unauthorized_marker c res n, where fuel = 0, unfolded en]
  then show ?thesis by (intro conjI)
qed

text \<open>
  Claim C7. The request fails with the auth-failure marker, the credentials for a
  refresh are there, and the call of the refresh endpoint rejects with an error that
  has neither status 400 nor a message containing \<open>Refresh token is invalid\<close>. Then
  the Gateway rejects with that error after this one refresh call, the cookie jar is
  what it was and nothing is navigated.
\<close>

theorem apiClient_transient_refresh_failure:
  assumes "adapter env w (requestInterceptor w cfg) = Failed why (Some r)"
    and "data r = Some d" and "message d = Some m"
    and "sublist ''Unauthorized or invalid token'' m"
    and "Cookies w ''refresh_token'' = Some oldToken" and "oldToken \<noteq> []"
    and "Cookies w ''user_id'' = Some userId" and "userId \<noteq> []"
    and "refreshToken env (w\<lparr>dispatched := dispatched w @ [requestInterceptor w cfg]\<rparr>)
           oldToken userId = Inl refreshError"
    and "responseStatus refreshError \<noteq> Some 400"
    and "\<not> sublist ''Refresh token is invalid'' (responseMessage refreshError)"
  shows "\<exists>w'. apiClient (Suc fuel) env w cfg = Some (Inl refreshError, w')
            \<and> Cookies w' = Cookies w \<and> routerPushes w' = routerPushes w
            \<and> refreshCalls w' = refreshCalls w @ [(oldToken, userId)]"
proof -
  let ?w1 = "w\<lparr>dispatched := dispatched w @ [requestInterceptor w cfg]\<rparr>"
  have t: "tryBlock (apiClient fuel env) env ?w1 (Some (requestInterceptor w cfg))
             = Inl (refreshError, ?w1\<lparr>refreshCalls := refreshCalls w @ [(oldToken, userId)]\<rparr>)"
    using assms(5-9) by (simp add: tryBlock_def orNull_def)
  show ?thesis
    unfolding apiClient_unauthorized [OF assms(1-4)] t
    using assms(10,11) by (simp add: catchBlock_def)
qed

theorem apiClient_transient_refresh_failure_witness:
  "refreshToken (scripted [unauthorized] (Inl networkError))
      (loggedIn\<lparr>dispatched := dispatched loggedIn @ [requestInterceptor loggedIn getItems]\<rparr>)
      ''r0'' ''u0'' = Inl networkError
   \<and> responseStatus networkError \<noteq> Some 400
   \<and> \<not> sublist ''Refresh token is invalid'' (responseMessage networkError)
   \<and> (\<exists>w'. apiClient (Suc 0) (scripted [unauthorized] (Inl networkError)) loggedIn getItems
               = Some (Inl networkError, w')
           \<and> Cookies w' = Cookies loggedIn \<and> routerPushes w' = routerPushes loggedIn
           \<and> refreshCalls w' = refreshCalls loggedIn @ [(''r0'', ''u0'')])"
proof -
  have rej: "refreshToken (scripted [unauthorized] (Inl networkError))
      (loggedIn\<lparr>dispatched := dispatched loggedIn @ [requestInterceptor loggedIn getItems]\<rparr>)
      ''r0'' ''u0'' = Inl networkError"
    by (simp add: scripted_def)
  have c: "Cookies loggedIn ''refresh_token'' = Some ''r0''" "''r0'' \<noteq> []"
          "Cookies loggedIn ''user_id'' = Some ''u0''" "''u0'' \<noteq> []"
    by (simp_all add: loggedIn_def)
  have s: "responseStatus networkError \<noteq> Some 400"
    by (simp add: networkError_def responseStatus_def)
  have m: "\<not> sublist ''Refresh token is invalid'' (responseMessage networkError)"
    by (simp add: networkError_def responseMessage_def)
  from apiClient_transient_refresh_failure
         [OF unauthorized_first(1) unauthorized_marker c rej s m, where fuel = 0]
  show ?thesis using rej s m by blast
qed

section \<open>Properties of the identity client\<close>

text \<open>
  Claim C10. The identity client never calls the refresh endpoint. When the transport
  fails a request with a response of status 401, the client rejects with that error,
  having removed the cookie \<open>token\<close> and no other, and having pushed \<open>/login\<close>.
\<close>

theorem identityApiClient_unauthorized:
  "refreshCalls (snd (identityApiClient env w cfg)) = refreshCalls w
   \<and> (adapter env w (requestInterceptor w cfg) = Failed why (Some r) \<and> status r = 401 \<longrightarrow>
        (\<exists>w'. identityApiClient env w cfg
                 = (Inl \<lparr>errorText = why, config = Some (requestInterceptor w cfg),
                         response = Some r\<rparr>, w')
             \<and> Cookies w' = (Cookies w)(''token'' := None)
             \<and> routerPushes w' = routerPushes w @ [''/login'']))"
  by (auto simp: identityApiClient_def identityOnRejected_def responseStatus_def Let_def
           split: reply.splits)

theorem identityApiClient_unauthorized_witness:
  "adapter (scripted [unauthorized] (Inl networkError)) loggedIn
      (requestInterceptor loggedIn getItems)
     = Failed ''Request failed with status code 401'' (Some unauthorizedResponse)
   \<and> status unauthorizedResponse = 401
   \<and> refreshCalls (snd (identityApiClient (scripted [unauthorized] (Inl networkError))
                          loggedIn getItems)) = []
   \<and> Cookies (snd (identityApiClient (scripted [unauthorized] (Inl networkError))
                          loggedIn getItems))
       = [''refresh_token'' \<mapsto> ''r0'', ''user_id'' \<mapsto> ''u0'']
   \<and> routerPushes (snd (identityApiClient (scripted [unauthorized] (Inl networkError))
                          loggedIn getItems)) = [''/login'']"
proof -
  let ?env = "scripted [unauthorized] (Inl networkError)"
  have s: "status unauthorizedResponse = 401"
    by (simp add: unauthorizedResponse_def)
  have j: "(Cookies loggedIn)(''token'' := None)
             = [''refresh_token'' \<mapsto> ''r0'', ''user_id'' \<mapsto> ''u0'']"
    by (auto simp: loggedIn_def)
  have r: "refreshCalls loggedIn = []" "routerPushes loggedIn = []"
    by (simp_all add: loggedIn_def)
  from identityApiClient_unauthorized
         [of ?env loggedIn getItems "''Request failed with status code 401''"
             unauthorizedResponse]
       unauthorized_first(1) [of "Inl networkError"] s j r
  show ?thesis by auto
qed

section \<open>The refresh-and-resend branch\<close>

text \<open>
  After a successful refresh the Gateway stores the new token, sets the header and
  calls itself on the request: the run continues as a fresh call of the client.
\<close>

lemma apiClient_refreshed_resends:
  assumes "adapter env w (requestInterceptor w cfg) = Failed why (Some r)"
    and "data r = Some d" and "message d = Some m"
    and "sublist ''Unauthorized or invalid token'' m"
    and "orNull (Cookies w ''refresh_token'') = Some oldToken"
    and "orNull (Cookies w ''user_id'') = Some userId"
    and "refreshToken env (w\<lparr>dispatched := dispatched w @ [requestInterceptor w cfg]\<rparr>)
           oldToken userId = Inr refreshResponse"
    and "data refreshResponse = Some rd" and "orNull (jwtToken rd) = Some newAccessToken"
  shows "apiClient (Suc fuel) env w cfg =
           apiClient fuel env
             (w\<lparr>dispatched := dispatched w @ [requestInterceptor w cfg],
                refreshCalls := refreshCalls w @ [(oldToken, userId)],
                Cookies := (Cookies w)(''token'' \<mapsto> newAccessToken)\<rparr>)
             ((requestInterceptor w cfg)
                \<lparr>headers := (headers (requestInterceptor w cfg))
                    (''Authorization'' \<mapsto> ''Bearer '' @ newAccessToken)\<rparr>)"
  unfolding apiClient_unauthorized [OF assms(1-4)]
  using assms(5-9) by (simp add: tryBlock_def)


text \<open>
  When the resent request is fulfilled, or fails without the auth-failure marker, that
  outcome is what the caller gets: the request went out twice, the second time with the
  new token in its header, and the jar holds the new token.
\<close>

lemma apiClient_resend_outcome:
  fixes env :: env and w :: world and cfg :: requestConfig
  defines "sent \<equiv> requestInterceptor w cfg"
  defines "w1 \<equiv> w\<lparr>dispatched := dispatched w @ [sent]\<rparr>"
  assumes "adapter env w sent = Failed why (Some r)"
    and "data r = Some d" and "message d = Some m"
    and "sublist ''Unauthorized or invalid token'' m"
    and "orNull (Cookies w ''refresh_token'') = Some oldToken"
    and "orNull (Cookies w ''user_id'') = Some userId"
    and "refreshToken env w1 oldToken userId = Inr refreshResponse"
    and "data refreshResponse = Some rd" and "orNull (jwtToken rd) = Some newAccessToken"
  defines "w2 \<equiv> w\<lparr>dispatched := dispatched w @ [sent],
                    refreshCalls := refreshCalls w @ [(oldToken, userId)],
                    Cookies := (Cookies w)(''token'' \<mapsto> newAccessToken)\<rparr>"
  defines "resent \<equiv> sent\<lparr>headers := (headers sent)
                        (''Authorization'' \<mapsto> ''Bearer '' @ newAccessToken)\<rparr>"
  shows "adapter env w2 resent = Fulfilled r2 \<Longrightarrow>
           apiClient (Suc (Suc fuel)) env w cfg
             = Some (Inr r2, w2\<lparr>dispatched := dispatched w @ [sent, resent]\<rparr>)"
    and "adapter env w2 resent = Failed why2 r3 \<Longrightarrow>
         \<not> sublist ''Unauthorized or invalid token''
             (responseMessage \<lparr>errorText = why2, config = Some resent, response = r3\<rparr>) \<Longrightarrow>
           apiClient (Suc (Suc fuel)) env w cfg
             = Some (Inl \<lparr>errorText = why2, config = Some resent, response = r3\<rparr>,
                     w2\<lparr>dispatched := dispatched w @ [sent, resent]\<rparr>)"
proof -
  have tok: "newAccessToken \<noteq> []"
    using assms(11) by (auto simp: orNull_def split: option.splits if_splits)
  have same: "requestInterceptor w2 resent = resent"
    using tok by (simp add: requestInterceptor_def orNull_def w2_def resent_def)
  have step: "apiClient (Suc (Suc fuel)) env w cfg = apiClient (Suc fuel) env w2 resent"
    unfolding w2_def resent_def sent_def
    using assms(3-11) unfolding sent_def w1_def
    by (rule apiClient_refreshed_resends)
  show "adapter env w2 resent = Fulfilled r2 \<Longrightarrow>
           apiClient (Suc (Suc fuel)) env w cfg
             = Some (Inr r2, w2\<lparr>dispatched := dispatched w @ [sent, resent]\<rparr>)"
    unfolding step by (simp add: same Let_def) (simp add: w2_def)
  show "adapter env w2 resent = Failed why2 r3 \<Longrightarrow>
         \<not> sublist ''Unauthorized or invalid token''
             (responseMessage \<lparr>errorText = why2, config = Some resent, response = r3\<rparr>) \<Longrightarrow>
           apiClient (Suc (Suc fuel)) env w cfg
             = Some (Inl \<lparr>errorText = why2, config = Some resent, response = r3\<rparr>,
                     w2\<lparr>dispatched := dispatched w @ [sent, resent]\<rparr>)"
    unfolding step by (simp add: same Let_def onRejected_def) (simp add: w2_def)
qed

section \<open>Repeated authentication failures\<close>

lemma stubborn_adapter:
  "adapter (stubborn k) w c =
     (if length (dispatched w) < k then unauthorized else Fulfilled okResponse)"
proof (cases "length (dispatched w) < k")
  case True
  then obtain j where "k - length (dispatched w) = Suc j"
    by (metis Suc_diff_Suc)
  then show ?thesis using True by (simp add: stubborn_def scripted_def)
next
  case False
  then show ?thesis by (simp add: stubborn_def scripted_def)
qed

lemma stubborn_refreshToken:
  "refreshToken (stubborn k) w a b = Inr (tokenResponse (Some ''t1''))"
  by (simp add: stubborn_def scripted_def)

lemma stubborn_run:
  assumes "orNull (Cookies w ''refresh_token'') = Some a"
    and "orNull (Cookies w ''user_id'') = Some b"
    and "length (dispatched w) + n = k"
  shows "\<exists>w'. apiClient (Suc n) (stubborn k) w cfg = Some (Inr okResponse, w')
            \<and> length (dispatched w') = Suc k
            \<and> length (refreshCalls w') = length (refreshCalls w) + n"
  using assms
proof (induction n arbitrary: w cfg)
  case 0
  then have "adapter (stubborn k) w (requestInterceptor w cfg) = Fulfilled okResponse"
    by (simp add: stubborn_adapter)
  from apiClient_fulfilled [OF this] 0 show ?case by simp
next
  case (Suc n)
  let ?sent = "requestInterceptor w cfg"
  let ?w2 = "w\<lparr>dispatched := dispatched w @ [?sent],
               refreshCalls := refreshCalls w @ [(a, b)],
               Cookies := (Cookies w)(''token'' \<mapsto> ''t1'')\<rparr>"
  let ?cfg2 = "?sent\<lparr>headers := (headers ?sent)(''Authorization'' \<mapsto> ''Bearer '' @ ''t1'')\<rparr>"
  have fail: "adapter (stubborn k) w ?sent
                = Failed ''Request failed with status code 401'' (Some unauthorizedResponse)"
    using Suc.prems(3) by (simp add: stubborn_adapter unauthorized_def)
  have step: "apiClient (Suc (Suc n)) (stubborn k) w cfg = apiClient (Suc n) (stubborn k) ?w2 ?cfg2"
    using apiClient_refreshed_resends
      [where env = "stubborn k" and w = w and cfg = cfg and fuel = "Suc n"
         and why = "''Request failed with status code 401''"
         and r = unauthorizedResponse
         and d = "\<lparr>message = Some ''Unauthorized or invalid token'', jwtToken = None,
                   content = []\<rparr>"
         and m = "''Unauthorized or invalid token''"
         and oldToken = a and userId = b
         and refreshResponse = "tokenResponse (Some ''t1'')"
         and rd = "\<lparr>message = None, jwtToken = Some ''t1'', content = []\<rparr>"
         and newAccessToken = "''t1''"]
      fail Suc.prems(1,2)
    by (simp add: unauthorizedResponse_def tokenResponse_def orNull_def stubborn_refreshToken)
  have "\<exists>w'. apiClient (Suc n) (stubborn k) ?w2 ?cfg2 = Some (Inr okResponse, w')
            \<and> length (dispatched w') = Suc k
            \<and> length (refreshCalls w') = length (refreshCalls ?w2) + n"
    by (rule Suc.IH) (use Suc.prems in simp_all)
  then show ?case unfolding step by simp
qed

text \<open>
  Claim C1, evaluated on the code. The type of \<open>originalRequest\<close> declares the
  marker \<open>_retry\<close>, but the handler neither sets nor tests it. Against a backend that
  answers the first \<open>k\<close> requests with the auth-failure marker, one call of the Gateway
  by a logged-in user refreshes \<open>k\<close> times and dispatches \<open>k + 1\<close> requests, for
  every \<open>k\<close>.
\<close>

theorem apiClient_retries_unbounded:
  "map_option fst (apiClient (Suc k) (stubborn k) loggedIn getItems) = Some (Inr okResponse)
   \<and> map_option (length \<circ> dispatched \<circ> snd) (apiClient (Suc k) (stubborn k) loggedIn getItems)
       = Some (Suc k)
   \<and> map_option (length \<circ> refreshCalls \<circ> snd) (apiClient (Suc k) (stubborn k) loggedIn getItems)
       = Some k"
proof -
  have "\<exists>w'. apiClient (Suc k) (stubborn k) loggedIn getItems = Some (Inr okResponse, w')
            \<and> length (dispatched w') = Suc k
            \<and> length (refreshCalls w') = length (refreshCalls loggedIn) + k"
    by (rule stubborn_run [where a = "''r0''" and b = "''u0''"])
       (simp_all add: loggedIn_def orNull_def)
  then show ?thesis by (auto simp: loggedIn_def)
qed

text \<open>
  Claim C5, evaluated on the code. The first two answers carry the auth-failure marker
  and both refreshes succeed: the Gateway does not return the failure of the resent
  request; it refreshes again, resends again, and resolves with the third answer.
\<close>

theorem apiClient_resent_twice:
  "map_option fst
     (apiClient 3 (scripted [unauthorized, unauthorized] (Inr (tokenResponse (Some ''t1''))))
        loggedIn getItems) = Some (Inr okResponse)
   \<and> map_option (length \<circ> dispatched \<circ> snd)
     (apiClient 3 (scripted [unauthorized, unauthorized] (Inr (tokenResponse (Some ''t1''))))
        loggedIn getItems) = Some 3
   \<and> map_option (length \<circ> refreshCalls \<circ> snd)
     (apiClient 3 (scripted [unauthorized, unauthorized] (Inr (tokenResponse (Some ''t1''))))
        loggedIn getItems) = Some 2"
  by (simp add: eval_defs numeral_3_eq_3)


end
